theory Spec2Isabelle
  imports Complex_Main "HOL-Library.Sublist"
begin

section \<open>UK visa cost calculator: data model\<close>

text \<open>
  The calculator (\<^verbatim>\<open>js/calculator.js\<close>) reads three tables: the routes (an array of
  objects), the fees (an object from fee keys to fee entries) and the rules (the two
  IHS rates). Numbers are modelled as exact rationals: fee amounts and rates are whole
  pounds and the billed years are multiples of one half, where the arithmetic of the
  source is exact too. A JSON \<^verbatim>\<open>null\<close> amount is \<open>None\<close>. Only the fields that
  \<^verbatim>\<open>Calculator.calculate\<close> reads are kept in the records.
\<close>

record fee =
  amount_inside_uk :: "rat option"
  amount_outside_uk :: "rat option"

record rules =
  ihs_standard_rate_per_year :: rat
  ihs_student_rate_per_year :: rat

record route =
  route_id :: string
  ihs_policy :: string
  fee_items :: "string list option"
  extras_supported :: "string list"
  last_reviewed :: string

record params =
  routeId :: string
  applyFrom :: string
  duration :: int
  applicants :: int
  dependants :: int
  addPriority :: bool
  addSuperPriority :: bool

record line =
  item :: string
  amount :: rat

record result =
  breakdown :: "line list"
  total :: rat
  lastReviewed :: string

datatype error = RouteNotFound | TypeError

section \<open>JavaScript primitives used by the calculator\<close>

text \<open>\<^verbatim>\<open>String.prototype.includes\<close>: \<open>str_includes s t\<close> holds when \<open>t\<close> occurs in \<open>s\<close>
  as a contiguous run of characters.\<close>

fun str_includes :: "string \<Rightarrow> string \<Rightarrow> bool" where
  "str_includes [] t = (t = [])"
| "str_includes (c # cs) t = (prefix t (c # cs) \<or> str_includes cs t)"

text \<open>The decimal rendering of an integer in a template literal.\<close>

definition digit_char :: "nat \<Rightarrow> char" where
  "digit_char d = char_of (48 + d)"

fun string_of_nat :: "nat \<Rightarrow> string" where
  "string_of_nat n =
     (if n < 10 then [digit_char n]
      else string_of_nat (n div 10) @ [digit_char (n mod 10)])"

declare string_of_nat.simps [simp del]

definition string_of_int :: "int \<Rightarrow> string" where
  "string_of_int i =
     (if i < 0 then CHR ''-'' # string_of_nat (nat (- i)) else string_of_nat (nat i))"

text \<open>\<^verbatim>\<open>a || b\<close> on nullable numbers: \<^verbatim>\<open>null\<close> and \<^verbatim>\<open>0\<close> are falsy.\<close>

definition js_or :: "rat option \<Rightarrow> rat option \<Rightarrow> rat option" where
  "js_or a b = (if a = None \<or> a = Some 0 then b else a)"

text \<open>\<^verbatim>\<open>ToNumber\<close>, as applied by \<^verbatim>\<open>*\<close> to a nullable number: \<^verbatim>\<open>null\<close> becomes 0.\<close>

definition to_number :: "rat option \<Rightarrow> rat" where
  "to_number a = (case a of None \<Rightarrow> 0 | Some v \<Rightarrow> v)"

section \<open>The calculator\<close>

text \<open>\<^verbatim>\<open>Calculator.getFeeKey\<close>. A missing or empty \<^verbatim>\<open>fee_items\<close> gives \<^verbatim>\<open>null\<close>;
  \<^verbatim>\<open>find(...) || feeItems[0]\<close> takes the first entry when nothing is found (or when
  the found string is empty, hence falsy).\<close>

definition find_or_first :: "string \<Rightarrow> string list \<Rightarrow> string" where
  "find_or_first pat feeItems =
     (case find (\<lambda>f. str_includes f pat) feeItems of
        Some f \<Rightarrow> if f \<noteq> [] then f else hd feeItems
      | None \<Rightarrow> hd feeItems)"

definition getFeeKey :: "route \<Rightarrow> string \<Rightarrow> string option" where
  "getFeeKey rt apply_from =
     (case fee_items rt of
        None \<Rightarrow> None
      | Some feeItems \<Rightarrow>
          if length feeItems = 0 then None
          else if apply_from = ''inside_uk'' then Some (find_or_first ''inside'' feeItems)
          else Some (find_or_first ''outside'' feeItems))"

text \<open>\<^verbatim>\<open>Calculator.getFeeAmount\<close>: the requested location's amount when it is not
  \<^verbatim>\<open>null\<close>, else the fallback \<^verbatim>\<open>fee.amount_inside_uk || fee.amount_outside_uk || 0\<close>.\<close>

definition getFeeAmount :: "(string \<rightharpoonup> fee) \<Rightarrow> string \<Rightarrow> string \<Rightarrow> rat" where
  "getFeeAmount fees feeKey apply_from =
     (case fees feeKey of
        None \<Rightarrow> 0
      | Some fe \<Rightarrow>
          if apply_from = ''inside_uk'' \<and> amount_inside_uk fe \<noteq> None
          then to_number (amount_inside_uk fe)
          else if apply_from = ''outside_uk'' \<and> amount_outside_uk fe \<noteq> None
          then to_number (amount_outside_uk fe)
          else to_number (js_or (js_or (amount_inside_uk fe) (amount_outside_uk fe)) (Some 0)))"

text \<open>\<^verbatim>\<open>Calculator.calculateIHS\<close>: \<^verbatim>\<open>Math.ceil(durationMonths / 6) * 0.5\<close> years.\<close>

definition calculateIHS :: "rules \<Rightarrow> route \<Rightarrow> int \<Rightarrow> int \<Rightarrow> int \<Rightarrow> rat" where
  "calculateIHS rl rt durationMonths apps deps =
     (let rate = (if ihs_policy rt = ''required_student''
                  then ihs_student_rate_per_year rl
                  else ihs_standard_rate_per_year rl);
          years = of_int \<lceil>(of_int durationMonths :: rat) / 6\<rceil> * (1 / 2);
          totalApplicants = apps + deps
      in rate * years * of_int totalApplicants)"

text \<open>\<^verbatim>\<open>Calculator.getPriorityFee\<close> and \<^verbatim>\<open>Calculator.getSuperPriorityFee\<close>: the entry is
  read without a guard, so a fee table without it makes the property access on
  \<^verbatim>\<open>undefined\<close> throw a TypeError.\<close>

definition getPriorityFee :: "(string \<rightharpoonup> fee) \<Rightarrow> string \<Rightarrow> error + rat option" where
  "getPriorityFee fees apply_from =
     (case fees ''priority'' of
        None \<Rightarrow> Inl TypeError
      | Some fe \<Rightarrow>
          Inr (if apply_from = ''inside_uk'' then amount_inside_uk fe else amount_outside_uk fe))"

definition getSuperPriorityFee :: "(string \<rightharpoonup> fee) \<Rightarrow> string \<Rightarrow> error + rat option" where
  "getSuperPriorityFee fees apply_from =
     (case fees ''super_priority'' of
        None \<Rightarrow> Inl TypeError
      | Some fe \<Rightarrow>
          Inr (if apply_from = ''inside_uk'' then amount_inside_uk fe else amount_outside_uk fe))"

text \<open>The two local variables \<^verbatim>\<open>breakdown\<close> and \<^verbatim>\<open>total\<close> of \<^verbatim>\<open>calculate\<close> are
  the state: \<open>push\<close> is \<^verbatim>\<open>breakdown.push({item, amount})\<close> and \<open>add_total\<close> is
  \<^verbatim>\<open>total += cost\<close>. Each of the six blocks of \<^verbatim>\<open>calculate\<close> is a function on this
  state; \<^verbatim>\<open>parseInt\<close> is the identity on the integer counts.\<close>

type_synonym acc = "line list \<times> rat"

definition push :: "string \<Rightarrow> rat \<Rightarrow> acc \<Rightarrow> acc" where
  "push label cost st = (fst st @ [\<lparr>item = label, amount = cost\<rparr>], snd st)"

definition add_total :: "rat \<Rightarrow> acc \<Rightarrow> acc" where
  "add_total cost st = (fst st, snd st + cost)"

definition application_label :: "int \<Rightarrow> string" where
  "application_label totalApplicants =
     ''Application Fee ('' @ string_of_int totalApplicants @ '' applicant''
       @ (if totalApplicants > 1 then ''s'' else '''') @ '')''"

definition application_step :: "(string \<rightharpoonup> fee) \<Rightarrow> route \<Rightarrow> params \<Rightarrow> acc \<Rightarrow> acc" where
  "application_step fees rt p st =
     (case getFeeKey rt (applyFrom p) of
        None \<Rightarrow> st
      | Some feeKey \<Rightarrow>
          if feeKey \<noteq> [] \<and> fees feeKey \<noteq> None then
            (let feeAmount = getFeeAmount fees feeKey (applyFrom p);
                 totalApplicants = applicants p + dependants p;
                 applicationCost = feeAmount * of_int totalApplicants
             in add_total applicationCost
                  (push (application_label totalApplicants) applicationCost st))
          else st)"

definition ihs_step :: "rules \<Rightarrow> route \<Rightarrow> params \<Rightarrow> acc \<Rightarrow> acc" where
  "ihs_step rl rt p st =
     (if ihs_policy rt \<noteq> ''not_required'' \<and> ihs_policy rt \<noteq> ''exempt'' then
        (let ihsCost = calculateIHS rl rt (duration p) (applicants p) (dependants p)
         in if ihsCost > 0 then add_total ihsCost (push ''Immigration Health Surcharge'' ihsCost st)
            else st)
      else st)"

definition priority_step :: "(string \<rightharpoonup> fee) \<Rightarrow> route \<Rightarrow> params \<Rightarrow> acc \<Rightarrow> error + acc" where
  "priority_step fees rt p st =
     (if addPriority p \<and> ''priority'' \<in> set (extras_supported rt) then
        (case getPriorityFee fees (applyFrom p) of
           Inl e \<Rightarrow> Inl e
         | Inr f \<Rightarrow>
             (let priorityCost = to_number f * of_int (applicants p + dependants p)
              in Inr (add_total priorityCost (push ''Priority Service'' priorityCost st))))
      else Inr st)"

definition super_priority_step ::
  "(string \<rightharpoonup> fee) \<Rightarrow> route \<Rightarrow> params \<Rightarrow> acc \<Rightarrow> error + acc" where
  "super_priority_step fees rt p st =
     (if addSuperPriority p \<and> ''super_priority'' \<in> set (extras_supported rt) then
        (case getSuperPriorityFee fees (applyFrom p) of
           Inl e \<Rightarrow> Inl e
         | Inr f \<Rightarrow>
             (let superPriorityCost = to_number f * of_int (applicants p + dependants p)
              in Inr (add_total superPriorityCost
                        (push ''Super Priority Service'' superPriorityCost st))))
      else Inr st)"

definition ceremony_step :: "(string \<rightharpoonup> fee) \<Rightarrow> route \<Rightarrow> params \<Rightarrow> acc \<Rightarrow> error + acc" where
  "ceremony_step fees rt p st =
     (if ''citizenship_ceremony'' \<in> set (extras_supported rt) then
        (case fees ''citizenship_ceremony'' of
           None \<Rightarrow> Inl TypeError
         | Some fe \<Rightarrow>
             (let ceremonyCost =
                    to_number (amount_inside_uk fe) * of_int (applicants p + dependants p)
              in Inr (add_total ceremonyCost (push ''Citizenship Ceremony'' ceremonyCost st))))
      else Inr st)"

definition life_test_step :: "params \<Rightarrow> acc \<Rightarrow> acc" where
  "life_test_step p st =
     (if str_includes (routeId p) ''indefinite-leave'' \<or> str_includes (routeId p) ''citizenship'' then
        (let testCost = 50 * of_int (applicants p + dependants p)
         in add_total testCost (push ''Life in the UK Test'' testCost st))
      else st)"

text \<open>\<^verbatim>\<open>Calculator.calculate\<close>: the route lookup, then the six blocks in the order of
  the source; an exception thrown in a block ends the call.\<close>

definition calculate ::
  "route list \<Rightarrow> (string \<rightharpoonup> fee) \<Rightarrow> rules \<Rightarrow> params \<Rightarrow> error + result" where
  "calculate routes fees rl p =
     (case find (\<lambda>r. route_id r = routeId p) routes of
        None \<Rightarrow> Inl RouteNotFound
      | Some rt \<Rightarrow>
          (let st1 = application_step fees rt p ([], 0);
               st2 = ihs_step rl rt p st1
           in case priority_step fees rt p st2 of
                Inl e \<Rightarrow> Inl e
              | Inr st3 \<Rightarrow>
                 (case super_priority_step fees rt p st3 of
                    Inl e \<Rightarrow> Inl e
                  | Inr st4 \<Rightarrow>
                     (case ceremony_step fees rt p st4 of
                        Inl e \<Rightarrow> Inl e
                      | Inr st5 \<Rightarrow>
                         (let st6 = life_test_step p st5
                          in Inr \<lparr>breakdown = fst st6, total = snd st6,
                                  lastReviewed = last_reviewed rt\<rparr>)))))"

section \<open>The validation script\<close>

text \<open>
  \<^verbatim>\<open>scripts/validate.js\<close> keeps two global counters, \<^verbatim>\<open>errors\<close> and \<^verbatim>\<open>warnings\<close>,
  incremented by \<^verbatim>\<open>error(msg)\<close> and \<^verbatim>\<open>warn(msg)\<close>; the messages themselves are only
  printed. The result of \<^verbatim>\<open>loadJSON\<close> is a file that failed to read or parse, a file
  that parsed to a falsy value, or the table, which has the shape the script expects
  (the routes an array of objects, the fees an object). A route is seen through what the checks
  read of it: the names of the properties it defines, its \<^verbatim>\<open>route_id\<close>, its
  \<^verbatim>\<open>fee_items\<close> when that is an array, and whether \<^verbatim>\<open>indexable === true\<close>.
\<close>

record counters =
  errors :: nat
  warnings :: nat

datatype 'a parsed = Unparseable | Falsy | Table 'a


definition error :: "counters \<Rightarrow> counters" where
  "error c = c\<lparr>errors := errors c + 1\<rparr>"












section \<open>Notions used to state the properties\<close>

text \<open>The lines of a breakdown that carry a given label.\<close>

definition lines_named :: "string \<Rightarrow> line list \<Rightarrow> line list" where
  "lines_named label bd = filter (\<lambda>l. item l = label) bd"


section \<open>Example tables\<close>

text \<open>A small fee table, the two IHS rates, two routes and two requests, used to run the
  calculator on concrete inputs.\<close>

definition ex_fees :: "string \<rightharpoonup> fee" where
  "ex_fees =
     [''skilled_worker_outside'' \<mapsto> \<lparr>amount_inside_uk = None, amount_outside_uk = Some 719\<rparr>,
      ''skilled_worker_inside'' \<mapsto> \<lparr>amount_inside_uk = Some 827, amount_outside_uk = None\<rparr>,
      ''naturalisation'' \<mapsto> \<lparr>amount_inside_uk = Some 1500, amount_outside_uk = None\<rparr>,
      ''priority'' \<mapsto> \<lparr>amount_inside_uk = Some 500, amount_outside_uk = Some 400\<rparr>,
      ''super_priority'' \<mapsto> \<lparr>amount_inside_uk = Some 1000, amount_outside_uk = None\<rparr>,
      ''citizenship_ceremony'' \<mapsto> \<lparr>amount_inside_uk = Some 130, amount_outside_uk = Some 999\<rparr>]"

definition ex_rules :: rules where
  "ex_rules = \<lparr>ihs_standard_rate_per_year = 1035, ihs_student_rate_per_year = 776\<rparr>"

definition ex_skilled_worker :: route where
  "ex_skilled_worker =
     \<lparr>route_id = ''skilled-worker'', ihs_policy = ''required'',
      fee_items = Some [''skilled_worker_outside'', ''skilled_worker_inside''],
      extras_supported = [''priority'', ''super_priority''], last_reviewed = ''2024-04-01''\<rparr>"

definition ex_citizenship :: route where
  "ex_citizenship =
     \<lparr>route_id = ''british-citizenship'', ihs_policy = ''not_required'',
      fee_items = Some [''naturalisation''],
      extras_supported = [''citizenship_ceremony''], last_reviewed = ''2024-04-01''\<rparr>"

definition ex_routes :: "route list" where
  "ex_routes = [ex_skilled_worker, ex_citizenship]"

definition ex_worker :: params where
  "ex_worker = \<lparr>routeId = ''skilled-worker'', applyFrom = ''outside_uk'', duration = 12,
                 applicants = 1, dependants = 0, addPriority = True, addSuperPriority = False\<rparr>"

definition ex_citizen :: params where
  "ex_citizen = \<lparr>routeId = ''british-citizenship'', applyFrom = ''outside_uk'', duration = 0,
                  applicants = 2, dependants = 0, addPriority = False, addSuperPriority = False\<rparr>"


definition ex_citizen_result :: result where
  "ex_citizen_result =
     \<lparr>breakdown = [\<lparr>item = ''Application Fee (2 applicants)'', amount = 3000\<rparr>,
                   \<lparr>item = ''Citizenship Ceremony'', amount = 260\<rparr>,
                   \<lparr>item = ''Life in the UK Test'', amount = 100\<rparr>],
      total = 3360, lastReviewed = ''2024-04-01''\<rparr>"

definition ex_fees_no_extras :: "string \<rightharpoonup> fee" where
  "ex_fees_no_extras =
     [''skilled_worker_outside'' \<mapsto> \<lparr>amount_inside_uk = None, amount_outside_uk = Some 719\<rparr>,
      ''skilled_worker_inside'' \<mapsto> \<lparr>amount_inside_uk = Some 827, amount_outside_uk = None\<rparr>,
      ''naturalisation'' \<mapsto> \<lparr>amount_inside_uk = Some 1500, amount_outside_uk = None\<rparr>]"

definition ex_worker_super :: params where
  "ex_worker_super = ex_worker\<lparr>addPriority := False, addSuperPriority := True\<rparr>"



section \<open>Auxiliary facts\<close>

lemma str_includes_sublist: "str_includes s t = sublist t s"
proof (induction s)
  case Nil
  show ?case by simp
next
  case (Cons c cs)
  show ?case by (simp add: Cons.IH sublist_Cons_right)
qed

lemma str_includes_nonempty: "str_includes f pat \<Longrightarrow> pat \<noteq> [] \<Longrightarrow> f \<noteq> []"
  by (cases f) auto









text \<open>A successful call went through all six blocks.\<close>

lemma calculate_InrD:
  assumes "calculate routes fees rl p = Inr res"
  obtains rt st3 st4 st5 where
    "find (\<lambda>r. route_id r = routeId p) routes = Some rt"
    "priority_step fees rt p (ihs_step rl rt p (application_step fees rt p ([], 0))) = Inr st3"
    "super_priority_step fees rt p st3 = Inr st4"
    "ceremony_step fees rt p st4 = Inr st5"
    "breakdown res = fst (life_test_step p st5)"
    "total res = snd (life_test_step p st5)"
    "lastReviewed res = last_reviewed rt"
  using assms
  by (auto simp: calculate_def Let_def split: option.splits sum.splits)

lemma application_step_append:
  "fst (application_step fees rt p st) = fst st @ fst (application_step fees rt p ([], 0))"
  by (simp add: application_step_def Let_def push_def add_total_def split: option.splits)

lemma ihs_step_append: "fst (ihs_step rl rt p st) = fst st @ fst (ihs_step rl rt p ([], 0))"
  by (simp add: ihs_step_def Let_def push_def add_total_def)

lemma priority_step_append:
  assumes "priority_step fees rt p st = Inr st'"
  obtains a where "priority_step fees rt p ([], 0) = Inr a" "fst st' = fst st @ fst a"
  using assms by (auto simp: priority_step_def Let_def push_def add_total_def split: if_splits sum.splits)

lemma super_priority_step_append:
  assumes "super_priority_step fees rt p st = Inr st'"
  obtains a where "super_priority_step fees rt p ([], 0) = Inr a" "fst st' = fst st @ fst a"
  using assms by (auto simp: super_priority_step_def Let_def push_def add_total_def split: if_splits sum.splits)

lemma ceremony_step_append:
  assumes "ceremony_step fees rt p st = Inr st'"
  obtains a where "ceremony_step fees rt p ([], 0) = Inr a" "fst st' = fst st @ fst a"
  using assms by (auto simp: ceremony_step_def Let_def push_def add_total_def split: if_splits option.splits)

lemma life_test_step_append:
  "fst (life_test_step p st) = fst st @ fst (life_test_step p ([], 0))"
  by (simp add: life_test_step_def Let_def push_def add_total_def)

lemma calculate_breakdown:
  assumes "calculate routes fees rl p = Inr res"
  obtains rt a3 a4 a5 where
    "find (\<lambda>r. route_id r = routeId p) routes = Some rt"
    "priority_step fees rt p ([], 0) = Inr a3"
    "super_priority_step fees rt p ([], 0) = Inr a4"
    "ceremony_step fees rt p ([], 0) = Inr a5"
    "breakdown res =
       fst (application_step fees rt p ([], 0)) @ fst (ihs_step rl rt p ([], 0)) @ fst a3
         @ fst a4 @ fst a5 @ fst (life_test_step p ([], 0))"
proof -
  from assms obtain rt st3 st4 st5 where
    f: "find (\<lambda>r. route_id r = routeId p) routes = Some rt"
    and s3: "priority_step fees rt p (ihs_step rl rt p (application_step fees rt p ([], 0))) = Inr st3"
    and s4: "super_priority_step fees rt p st3 = Inr st4"
    and s5: "ceremony_step fees rt p st4 = Inr st5"
    and b: "breakdown res = fst (life_test_step p st5)"
    by (rule calculate_InrD)
  from s3 obtain a3 where a3: "priority_step fees rt p ([], 0) = Inr a3"
    and e3: "fst st3 = fst (ihs_step rl rt p (application_step fees rt p ([], 0))) @ fst a3"
    by (rule priority_step_append)
  from s4 obtain a4 where a4: "super_priority_step fees rt p ([], 0) = Inr a4"
    and e4: "fst st4 = fst st3 @ fst a4"
    by (rule super_priority_step_append)
  from s5 obtain a5 where a5: "ceremony_step fees rt p ([], 0) = Inr a5"
    and e5: "fst st5 = fst st4 @ fst a5"
    by (rule ceremony_step_append)
  have e2: "fst (ihs_step rl rt p (application_step fees rt p ([], 0))) =
      fst (application_step fees rt p ([], 0)) @ fst (ihs_step rl rt p ([], 0))"
    by (rule ihs_step_append)
  have "breakdown res = fst st5 @ fst (life_test_step p ([], 0))"
    using b life_test_step_append [of p st5] by simp
  with e2 e3 e4 e5 have "breakdown res =
       fst (application_step fees rt p ([], 0)) @ fst (ihs_step rl rt p ([], 0)) @ fst a3
         @ fst a4 @ fst a5 @ fst (life_test_step p ([], 0))"
    by simp
  with f a3 a4 a5 show ?thesis by (rule that)
qed

lemma lines_named_append: "lines_named L (xs @ ys) = lines_named L xs @ lines_named L ys"
  by (simp add: lines_named_def)

lemma application_step_other:
  "L = [] \<or> hd L \<noteq> CHR ''A'' \<Longrightarrow> lines_named L (fst (application_step fees rt p ([], 0))) = []"
  by (auto simp: application_step_def Let_def push_def add_total_def lines_named_def application_label_def
      split: option.splits)

lemma ihs_step_other:
  "L \<noteq> ''Immigration Health Surcharge'' \<Longrightarrow> lines_named L (fst (ihs_step rl rt p ([], 0))) = []"
  by (simp add: ihs_step_def Let_def push_def add_total_def lines_named_def)

lemma priority_step_other:
  "L \<noteq> ''Priority Service'' \<Longrightarrow> priority_step fees rt p ([], 0) = Inr a \<Longrightarrow> lines_named L (fst a) = []"
  by (auto simp: priority_step_def Let_def push_def add_total_def lines_named_def split: if_splits sum.splits)

lemma super_priority_step_other:
  "L \<noteq> ''Super Priority Service'' \<Longrightarrow> super_priority_step fees rt p ([], 0) = Inr a \<Longrightarrow> lines_named L (fst a) = []"
  by (auto simp: super_priority_step_def Let_def push_def add_total_def lines_named_def split: if_splits sum.splits)

lemma ceremony_step_other:
  "L \<noteq> ''Citizenship Ceremony'' \<Longrightarrow> ceremony_step fees rt p ([], 0) = Inr a \<Longrightarrow> lines_named L (fst a) = []"
  by (auto simp: ceremony_step_def Let_def push_def add_total_def lines_named_def split: if_splits option.splits)

lemma life_test_step_other:
  "L \<noteq> ''Life in the UK Test'' \<Longrightarrow> lines_named L (fst (life_test_step p ([], 0))) = []"
  by (simp add: life_test_step_def Let_def push_def add_total_def lines_named_def)


lemma ihs_lines:
  assumes "calculate routes fees rl p = Inr res"
    and "find (\<lambda>r. route_id r = routeId p) routes = Some rt"
  shows "lines_named ''Immigration Health Surcharge'' (breakdown res) = fst (ihs_step rl rt p ([], 0))"
proof -
  from assms(1) obtain rt' a3 a4 a5 where
    f: "find (\<lambda>r. route_id r = routeId p) routes = Some rt'"
    and a3: "priority_step fees rt' p ([], 0) = Inr a3"
    and a4: "super_priority_step fees rt' p ([], 0) = Inr a4"
    and a5: "ceremony_step fees rt' p ([], 0) = Inr a5"
    and b: "breakdown res =
       fst (application_step fees rt' p ([], 0)) @ fst (ihs_step rl rt' p ([], 0)) @ fst a3
         @ fst a4 @ fst a5 @ fst (life_test_step p ([], 0))"
    by (rule calculate_breakdown)
  from f assms(2) have rt: "rt' = rt" by simp
  have own: "lines_named ''Immigration Health Surcharge'' (fst (ihs_step rl rt p ([], 0)))
      = fst (ihs_step rl rt p ([], 0))"
    by (simp add: ihs_step_def Let_def push_def add_total_def lines_named_def)
  show ?thesis
    unfolding b rt lines_named_append
    using a3 a4 a5
    by (simp add: own rt application_step_other priority_step_other super_priority_step_other
        ceremony_step_other life_test_step_other)
qed




lemma ceremony_lines:
  assumes "calculate routes fees rl p = Inr res"
    and "find (\<lambda>r. route_id r = routeId p) routes = Some rt"
  obtains a where "ceremony_step fees rt p ([], 0) = Inr a"
    "lines_named ''Citizenship Ceremony'' (breakdown res) = fst a"
proof -
  from assms(1) obtain rt' a3 a4 a5 where
    f: "find (\<lambda>r. route_id r = routeId p) routes = Some rt'"
    and a3: "priority_step fees rt' p ([], 0) = Inr a3"
    and a4: "super_priority_step fees rt' p ([], 0) = Inr a4"
    and a5: "ceremony_step fees rt' p ([], 0) = Inr a5"
    and b: "breakdown res =
       fst (application_step fees rt' p ([], 0)) @ fst (ihs_step rl rt' p ([], 0)) @ fst a3
         @ fst a4 @ fst a5 @ fst (life_test_step p ([], 0))"
    by (rule calculate_breakdown)
  from f assms(2) have rt: "rt' = rt" by simp
  have own: "lines_named ''Citizenship Ceremony'' (fst a5) = fst a5"
    using a5
    by (auto simp: ceremony_step_def Let_def push_def add_total_def lines_named_def split: if_splits option.splits)
  have "lines_named ''Citizenship Ceremony'' (breakdown res) = fst a5"
    unfolding b lines_named_append
    using a3 a4
    by (simp add: own application_step_other ihs_step_other priority_step_other
        super_priority_step_other life_test_step_other)
  with a5 show ?thesis unfolding rt by (rule that)
qed

lemma life_test_lines:
  assumes "calculate routes fees rl p = Inr res"
  shows "lines_named ''Life in the UK Test'' (breakdown res) = fst (life_test_step p ([], 0))"
proof -
  from assms(1) obtain rt' a3 a4 a5 where
    a3: "priority_step fees rt' p ([], 0) = Inr a3"
    and a4: "super_priority_step fees rt' p ([], 0) = Inr a4"
    and a5: "ceremony_step fees rt' p ([], 0) = Inr a5"
    and b: "breakdown res =
       fst (application_step fees rt' p ([], 0)) @ fst (ihs_step rl rt' p ([], 0)) @ fst a3
         @ fst a4 @ fst a5 @ fst (life_test_step p ([], 0))"
    by (rule calculate_breakdown)
  have own: "lines_named ''Life in the UK Test'' (fst (life_test_step p ([], 0)))
      = fst (life_test_step p ([], 0))"
    by (simp add: life_test_step_def Let_def push_def add_total_def lines_named_def)
  show ?thesis
    unfolding b lines_named_append
    using a3 a4 a5
    by (simp add: own application_step_other ihs_step_other priority_step_other
        super_priority_step_other ceremony_step_other)
qed

lemma getFeeKey_select:
  assumes "fee_items rt = Some feeItems" and "feeItems \<noteq> []"
  shows "getFeeKey rt af =
           Some (case find (\<lambda>f. sublist (if af = ''inside_uk'' then ''inside'' else ''outside'') f)
                        feeItems of
                   Some f \<Rightarrow> f | None \<Rightarrow> hd feeItems)"
proof -
  have ne: "\<And>pat f. find (\<lambda>f. str_includes f pat) feeItems = Some f \<Longrightarrow> pat \<noteq> [] \<Longrightarrow> f \<noteq> []"
    by (auto simp: find_Some_iff dest: str_includes_nonempty)
  have "\<And>pat. pat \<noteq> [] \<Longrightarrow> find_or_first pat feeItems =
      (case find (\<lambda>f. sublist pat f) feeItems of Some f \<Rightarrow> f | None \<Rightarrow> hd feeItems)"
    using ne by (auto simp: find_or_first_def str_includes_sublist [symmetric] split: option.splits)
  then show ?thesis
    using assms by (simp add: getFeeKey_def)
qed

lemma getFeeAmount_requested:
  assumes "fees key = Some fe"
    and "af = ''inside_uk'' \<or> af = ''outside_uk''"
  shows "getFeeAmount fees key af =
      (case (if af = ''inside_uk'' then amount_inside_uk fe else amount_outside_uk fe) of
         Some v \<Rightarrow> v
       | None \<Rightarrow>
          (case (if af = ''inside_uk'' then amount_outside_uk fe else amount_inside_uk fe) of
             Some w \<Rightarrow> w | None \<Rightarrow> 0))"
  using assms
  by (auto simp: getFeeAmount_def js_or_def to_number_def split: option.splits)

lemma calculate_route_not_found:
  "calculate routes fees rl p = Inl RouteNotFound \<longleftrightarrow>
     find (\<lambda>r. route_id r = routeId p) routes = None"
  by (auto simp: calculate_def Let_def priority_step_def super_priority_step_def
      ceremony_step_def getPriorityFee_def getSuperPriorityFee_def
      split: option.splits sum.splits if_splits)

lemma find_None_no_route_id:
  "find (\<lambda>r. route_id r = rid) routes = None \<longleftrightarrow> rid \<notin> route_id ` set routes"
  by (auto simp: find_None_iff)

lemma missing_application_fee_is_skipped:
  "getFeeKey rt (applyFrom p) = Some key \<Longrightarrow> fees key = None \<Longrightarrow>
     application_step fees rt p st = st"
  by (simp add: application_step_def)

lemma getFeeAmount_missing: "fees key = None \<Longrightarrow> getFeeAmount fees key af = 0"
  by (simp add: getFeeAmount_def)

lemma calculate_returns_when_entries_present:
  assumes "find (\<lambda>r. route_id r = routeId p) routes = Some rt"
    and "addPriority p \<and> ''priority'' \<in> set (extras_supported rt) \<longrightarrow> fees ''priority'' \<noteq> None"
    and "addSuperPriority p \<and> ''super_priority'' \<in> set (extras_supported rt)
           \<longrightarrow> fees ''super_priority'' \<noteq> None"
    and "''citizenship_ceremony'' \<in> set (extras_supported rt)
           \<longrightarrow> fees ''citizenship_ceremony'' \<noteq> None"
  shows "\<exists>res. calculate routes fees rl p = Inr res"
  using assms
  by (auto simp: calculate_def Let_def priority_step_def super_priority_step_def
      ceremony_step_def getPriorityFee_def getSuperPriorityFee_def
      split: option.splits sum.splits if_splits)


lemma ex_citizen_calculate: "calculate ex_routes ex_fees ex_rules ex_citizen = Inr ex_citizen_result"
  by code_simp


lemma ex_citizen_find:
  "find (\<lambda>r. route_id r = routeId ex_citizen) ex_routes = Some ex_citizenship"
  by code_simp

section \<open>Properties of the calculator\<close>



text \<open>
  Claim C2. For a route with a non-empty \<^verbatim>\<open>fee_items\<close> list the application-fee key is
  the first entry whose name contains \<^verbatim>\<open>inside\<close> (when \<^verbatim>\<open>applyFrom\<close> is \<^verbatim>\<open>inside_uk\<close>) or
  \<^verbatim>\<open>outside\<close> (otherwise), and the first entry when no name matches. When the fee table
  holds that key, the first line of a returned breakdown is the application fee line: its
  amount is the entry's amount for the requested location, or the other location's amount
  when the requested one is \<^verbatim>\<open>null\<close> (0 when both are), times the number of applicants
  and dependants.
\<close>

theorem application_fee_key_and_amount:
  assumes "fee_items rt = Some feeItems" and "feeItems \<noteq> []"
    and "pat = (if applyFrom p = ''inside_uk'' then ''inside'' else ''outside'')"
    and "key = (case find (\<lambda>f. sublist pat f) feeItems of Some f \<Rightarrow> f | None \<Rightarrow> hd feeItems)"
    and "requested = (if applyFrom p = ''inside_uk'' then amount_inside_uk fe
                      else amount_outside_uk fe)"
    and "other = (if applyFrom p = ''inside_uk'' then amount_outside_uk fe
                  else amount_inside_uk fe)"
  shows "getFeeKey rt (applyFrom p) = Some key
       \<and> (find (\<lambda>r. route_id r = routeId p) routes = Some rt
            \<and> calculate routes fees rl p = Inr res
            \<and> key \<noteq> [] \<and> fees key = Some fe
            \<and> (applyFrom p = ''inside_uk'' \<or> applyFrom p = ''outside_uk'')
          \<longrightarrow> (\<exists>rest. breakdown res =
                 \<lparr>item = application_label (applicants p + dependants p),
                  amount = (case requested of
                              Some v \<Rightarrow> v
                            | None \<Rightarrow> (case other of Some w \<Rightarrow> w | None \<Rightarrow> 0))
                           * of_int (applicants p + dependants p)\<rparr> # rest))"
proof (intro conjI impI)
  show k: "getFeeKey rt (applyFrom p) = Some key"
    unfolding assms(3,4) using assms(1,2) by (rule getFeeKey_select)
  assume h: "find (\<lambda>r. route_id r = routeId p) routes = Some rt
            \<and> calculate routes fees rl p = Inr res
            \<and> key \<noteq> [] \<and> fees key = Some fe
            \<and> (applyFrom p = ''inside_uk'' \<or> applyFrom p = ''outside_uk'')"
  then have f: "find (\<lambda>r. route_id r = routeId p) routes = Some rt"
    and c: "calculate routes fees rl p = Inr res"
    and kn: "key \<noteq> []" and fk: "fees key = Some fe"
    and loc: "applyFrom p = ''inside_uk'' \<or> applyFrom p = ''outside_uk''"
    by blast+
  from c obtain rt' a3 a4 a5 where
    f': "find (\<lambda>r. route_id r = routeId p) routes = Some rt'"
    and "priority_step fees rt' p ([], 0) = Inr a3"
    and "super_priority_step fees rt' p ([], 0) = Inr a4"
    and "ceremony_step fees rt' p ([], 0) = Inr a5"
    and b: "breakdown res =
       fst (application_step fees rt' p ([], 0)) @ fst (ihs_step rl rt' p ([], 0)) @ fst a3
         @ fst a4 @ fst a5 @ fst (life_test_step p ([], 0))"
    by (rule calculate_breakdown)
  from f f' have rt: "rt' = rt" by simp
  have amt: "getFeeAmount fees key (applyFrom p) =
      (case requested of Some v \<Rightarrow> v | None \<Rightarrow> (case other of Some w \<Rightarrow> w | None \<Rightarrow> 0))"
    unfolding assms(5,6) using fk loc by (rule getFeeAmount_requested)
  have "fst (application_step fees rt p ([], 0)) =
      [\<lparr>item = application_label (applicants p + dependants p),
        amount = (case requested of Some v \<Rightarrow> v
                  | None \<Rightarrow> (case other of Some w \<Rightarrow> w | None \<Rightarrow> 0))
                 * of_int (applicants p + dependants p)\<rparr>]"
    using k kn fk by (simp add: application_step_def Let_def push_def add_total_def amt)
  with b rt show "\<exists>rest. breakdown res =
                 \<lparr>item = application_label (applicants p + dependants p),
                  amount = (case requested of
                              Some v \<Rightarrow> v
                            | None \<Rightarrow> (case other of Some w \<Rightarrow> w | None \<Rightarrow> 0))
                           * of_int (applicants p + dependants p)\<rparr> # rest"
    by simp
qed

theorem application_fee_key_and_amount_witness:
  "getFeeKey ex_citizenship ''outside_uk'' = Some ''naturalisation''
   \<and> ex_fees ''naturalisation'' = Some \<lparr>amount_inside_uk = Some 1500, amount_outside_uk = None\<rparr>
   \<and> calculate ex_routes ex_fees ex_rules ex_citizen = Inr ex_citizen_result
   \<and> (\<exists>rest. breakdown ex_citizen_result =
         \<lparr>item = ''Application Fee (2 applicants)'', amount = 3000\<rparr> # rest)"
proof -
  have fi: "fee_items ex_citizenship = Some [''naturalisation'']"
    by (simp add: ex_citizenship_def)
  have ne: "[''naturalisation''] \<noteq> []" by simp
  have af: "applyFrom ex_citizen = ''outside_uk''" by (simp add: ex_citizen_def)
  have pat: "''outside'' = (if applyFrom ex_citizen = ''inside_uk'' then ''inside'' else ''outside'')"
    by (simp add: af)
  have key: "''naturalisation'' =
      (case find (\<lambda>f. sublist ''outside'' f) [''naturalisation''] of
         Some f \<Rightarrow> f | None \<Rightarrow> hd [''naturalisation''])"
    unfolding str_includes_sublist [symmetric] by code_simp
  have fe: "ex_fees ''naturalisation'' = Some \<lparr>amount_inside_uk = Some 1500, amount_outside_uk = None\<rparr>"
    by (simp add: ex_fees_def)
  have rq: "(None :: rat option) =
      (if applyFrom ex_citizen = ''inside_uk''
       then amount_inside_uk \<lparr>amount_inside_uk = Some 1500, amount_outside_uk = None\<rparr>
       else amount_outside_uk \<lparr>amount_inside_uk = Some 1500, amount_outside_uk = None\<rparr>)"
    by (simp add: af)
  have ot: "Some (1500 :: rat) =
      (if applyFrom ex_citizen = ''inside_uk''
       then amount_outside_uk \<lparr>amount_inside_uk = Some 1500, amount_outside_uk = None\<rparr>
       else amount_inside_uk \<lparr>amount_inside_uk = Some 1500, amount_outside_uk = None\<rparr>)"
    by (simp add: af)
  have lbl: "application_label 2 = ''Application Fee (2 applicants)''" by code_simp
  have d: "applicants ex_citizen = 2" "dependants ex_citizen = 0"
    by (simp_all add: ex_citizen_def)
  from application_fee_key_and_amount [OF fi ne pat key rq ot,
      of ex_routes ex_fees ex_rules ex_citizen_result]
    ex_citizen_find ex_citizen_calculate fe af
  show ?thesis by (simp add: d lbl)
qed



text \<open>
  Claim C4. For a route whose IHS policy is \<^verbatim>\<open>not_required\<close> or \<^verbatim>\<open>exempt\<close>, no line of
  a returned breakdown is an Immigration Health Surcharge line, whatever the request.
\<close>

theorem no_ihs_line_when_not_required_or_exempt:
  assumes "calculate routes fees rl p = Inr res"
    and "find (\<lambda>r. route_id r = routeId p) routes = Some rt"
    and "ihs_policy rt = ''not_required'' \<or> ihs_policy rt = ''exempt''"
  shows "\<forall>l \<in> set (breakdown res). item l \<noteq> ''Immigration Health Surcharge''"
proof -
  have "fst (ihs_step rl rt p ([], 0)) = []"
    using assms(3) by (auto simp: ihs_step_def)
  with ihs_lines [OF assms(1,2)]
  have "lines_named ''Immigration Health Surcharge'' (breakdown res) = []" by simp
  then show ?thesis
    by (auto simp: lines_named_def filter_empty_conv)
qed

theorem no_ihs_line_when_not_required_or_exempt_witness:
  "calculate ex_routes ex_fees ex_rules ex_citizen = Inr ex_citizen_result
   \<and> ihs_policy ex_citizenship = ''not_required''
   \<and> ''Immigration Health Surcharge'' \<notin> item ` set (breakdown ex_citizen_result)"
proof -
  have pol: "ihs_policy ex_citizenship = ''not_required''" by (simp add: ex_citizenship_def)
  from pol have pol': "ihs_policy ex_citizenship = ''not_required'' \<or> ihs_policy ex_citizenship = ''exempt''" ..
  from no_ihs_line_when_not_required_or_exempt [OF ex_citizen_calculate ex_citizen_find pol']
    ex_citizen_calculate pol
  show ?thesis by auto
qed



text \<open>
  Claim C6. A route identifier absent from the route table makes \<^verbatim>\<open>calculate\<close> fail
  with the route-not-found error (lemma \<open>calculate_route_not_found\<close>), but an identifier
  that is present does not always give a breakdown: the citizenship route of the example
  table is present, and with a fee table that has no \<^verbatim>\<open>citizenship_ceremony\<close> entry the
  unguarded read \<^verbatim>\<open>this.fees['citizenship_ceremony'].amount_inside_uk\<close> throws a TypeError.
  Lemma \<open>calculate_returns_when_entries_present\<close> gives the breakdown when the entries
  read for the supported extras are there.
\<close>

theorem present_route_fails_without_ceremony_entry:
  "routeId ex_citizen \<in> route_id ` set ex_routes
   \<and> calculate ex_routes ex_fees_no_extras ex_rules ex_citizen = Inl TypeError"
proof -
  have "routeId ex_citizen \<in> route_id ` set ex_routes"
    by (simp add: ex_citizen_def ex_routes_def ex_citizenship_def)
  moreover have "calculate ex_routes ex_fees_no_extras ex_rules ex_citizen = Inl TypeError"
    by code_simp
  ultimately show ?thesis ..
qed

text \<open>
  Claim C7. A fee key of the route's \<^verbatim>\<open>fee_items\<close> that is missing from the fee table
  is skipped without an error (lemmas \<open>missing_application_fee_is_skipped\<close> and
  \<open>getFeeAmount_missing\<close>: both reads are guarded), but the \<^verbatim>\<open>priority\<close>,
  \<^verbatim>\<open>super_priority\<close> and \<^verbatim>\<open>citizenship_ceremony\<close> entries are read without that guard:
  when one of them is used and missing, \<^verbatim>\<open>calculate\<close> throws a TypeError instead of
  counting it as zero.
\<close>

theorem missing_extra_fee_entries_throw:
  "ex_fees_no_extras ''priority'' = None
   \<and> calculate ex_routes ex_fees_no_extras ex_rules ex_worker = Inl TypeError
   \<and> ex_fees_no_extras ''super_priority'' = None
   \<and> calculate ex_routes ex_fees_no_extras ex_rules ex_worker_super = Inl TypeError
   \<and> ex_fees_no_extras ''citizenship_ceremony'' = None
   \<and> calculate ex_routes ex_fees_no_extras ex_rules ex_citizen = Inl TypeError"
proof -
  have "ex_fees_no_extras ''priority'' = None" "ex_fees_no_extras ''super_priority'' = None"
    "ex_fees_no_extras ''citizenship_ceremony'' = None"
    by (simp_all add: ex_fees_no_extras_def)
  moreover have "calculate ex_routes ex_fees_no_extras ex_rules ex_worker = Inl TypeError"
    by code_simp
  moreover have "calculate ex_routes ex_fees_no_extras ex_rules ex_worker_super = Inl TypeError"
    by code_simp
  moreover have "calculate ex_routes ex_fees_no_extras ex_rules ex_citizen = Inl TypeError"
    by code_simp
  ultimately show ?thesis by blast
qed

text \<open>
  Claim C8. A returned breakdown holds a Life in the UK Test line exactly when the route
  identifier of the request contains \<^verbatim>\<open>indefinite-leave\<close> or \<^verbatim>\<open>citizenship\<close>; there is
  then one such line, of 50 per applicant and dependant, whatever the route, fee and
  rule tables hold.
\<close>

theorem life_test_line_iff_route_identifier:
  assumes "calculate routes fees rl p = Inr res"
  shows "lines_named ''Life in the UK Test'' (breakdown res) =
           (if sublist ''indefinite-leave'' (routeId p) \<or> sublist ''citizenship'' (routeId p)
            then [\<lparr>item = ''Life in the UK Test'',
                   amount = 50 * of_int (applicants p + dependants p)\<rparr>]
            else [])"
  unfolding life_test_lines [OF assms]
  by (simp add: life_test_step_def Let_def push_def add_total_def str_includes_sublist)

theorem life_test_line_iff_route_identifier_witness:
  "calculate ex_routes ex_fees ex_rules ex_citizen = Inr ex_citizen_result
   \<and> sublist ''citizenship'' (routeId ex_citizen)
   \<and> lines_named ''Life in the UK Test'' (breakdown ex_citizen_result) =
       [\<lparr>item = ''Life in the UK Test'', amount = 100\<rparr>]"
proof -
  have s: "sublist ''citizenship'' (routeId ex_citizen)"
    unfolding str_includes_sublist [symmetric] by code_simp
  have d: "applicants ex_citizen = 2" "dependants ex_citizen = 0"
    by (simp_all add: ex_citizen_def)
  from life_test_line_iff_route_identifier [OF ex_citizen_calculate] s ex_citizen_calculate
  show ?thesis by (simp add: d)
qed

text \<open>
  Claim C10. For a route that lists \<^verbatim>\<open>citizenship_ceremony\<close> among its supported extras,
  the Citizenship Ceremony line of a returned breakdown is the inside-UK amount of the
  \<^verbatim>\<open>citizenship_ceremony\<close> fee entry (a \<^verbatim>\<open>null\<close> amount counting as 0) times the number
  of applicants and dependants, for every apply-from value; the outside-UK amount of the
  entry is not read.
\<close>

theorem ceremony_line_uses_inside_amount:
  assumes "calculate routes fees rl p = Inr res"
    and "find (\<lambda>r. route_id r = routeId p) routes = Some rt"
    and "''citizenship_ceremony'' \<in> set (extras_supported rt)"
    and "fees ''citizenship_ceremony'' = Some fe"
  shows "lines_named ''Citizenship Ceremony'' (breakdown res) =
           [\<lparr>item = ''Citizenship Ceremony'',
             amount = to_number (amount_inside_uk fe) * of_int (applicants p + dependants p)\<rparr>]"
proof -
  from assms(1,2) obtain a where a: "ceremony_step fees rt p ([], 0) = Inr a"
    and la: "lines_named ''Citizenship Ceremony'' (breakdown res) = fst a"
    by (rule ceremony_lines)
  from a assms(3,4) show ?thesis
    unfolding la by (auto simp: ceremony_step_def Let_def push_def add_total_def)
qed

theorem ceremony_line_uses_inside_amount_witness:
  "calculate ex_routes ex_fees ex_rules ex_citizen = Inr ex_citizen_result
   \<and> applyFrom ex_citizen = ''outside_uk''
   \<and> ex_fees ''citizenship_ceremony'' = Some \<lparr>amount_inside_uk = Some 130, amount_outside_uk = Some 999\<rparr>
   \<and> lines_named ''Citizenship Ceremony'' (breakdown ex_citizen_result) =
       [\<lparr>item = ''Citizenship Ceremony'', amount = 260\<rparr>]"
proof -
  have e: "''citizenship_ceremony'' \<in> set (extras_supported ex_citizenship)"
    by (simp add: ex_citizenship_def)
  have fe: "ex_fees ''citizenship_ceremony'' = Some \<lparr>amount_inside_uk = Some 130, amount_outside_uk = Some 999\<rparr>"
    by (simp add: ex_fees_def)
  have d: "applicants ex_citizen = 2" "dependants ex_citizen = 0" "applyFrom ex_citizen = ''outside_uk''"
    by (simp_all add: ex_citizen_def)
  from ceremony_line_uses_inside_amount [OF ex_citizen_calculate ex_citizen_find e fe]
    ex_citizen_calculate fe
  show ?thesis by (simp add: d to_number_def)
qed

section \<open>Property of the validation script\<close>



end
